theory Spec2Isabelle
  imports Main "HOL-Library.AList"
begin

section \<open>JavaScript values as the code sees them\<close>

text \<open>
  The relay (an Express application) and the browser client (a React component) both
  handle untyped JSON.  A value produced by \<^verbatim>\<open>JSON.parse\<close> is a \<open>json\<close>; a number
  is kept as the decimal text JavaScript prints for it (\<open>''0''\<close> for zero), which is all
  the code ever observes of a number: its truthiness, \<^verbatim>\<open>===\<close> and its rendering in a
  template string.  \<^verbatim>\<open>undefined\<close> is \<open>None\<close> of \<open>jsval\<close>.  A thrown \<^verbatim>\<open>Error\<close> is
  its message, on the left of a sum.
\<close>

datatype json =
    JNull
  | JBool bool
  | JNum string
  | JStr string
  | JArr "json list"
  | JObj "(string \<times> json) list"

type_synonym jsval = "json option"

fun truthy :: "jsval \<Rightarrow> bool" where
  "truthy None = False"
| "truthy (Some JNull) = False"
| "truthy (Some (JBool b)) = b"
| "truthy (Some (JNum n)) = (n \<noteq> ''0'')"
| "truthy (Some (JStr s)) = (s \<noteq> [])"
| "truthy (Some (JArr xs)) = True"
| "truthy (Some (JObj kvs)) = True"

fun show_nat :: "nat \<Rightarrow> string" where
  "show_nat n =
     (if n < 10 then [''0123456789'' ! n]
      else show_nat (n div 10) @ [''0123456789'' ! (n mod 10)])"

declare show_nat.simps [simp del]

text \<open>
  \<^verbatim>\<open>v.key\<close> for one of the names the code reads (\<open>error\<close>, \<open>message\<close>, \<open>token\<close>,
  \<open>id\<close>, \<open>domain\<close>, \<open>hydra:member\<close>): a \<^verbatim>\<open>TypeError\<close> on \<^verbatim>\<open>null\<close> and
  \<^verbatim>\<open>undefined\<close>, the field of an object, \<^verbatim>\<open>undefined\<close> on anything else (none of
  these names is a property of an array, a string, a number or a boolean).
\<close>

fun get_prop :: "jsval \<Rightarrow> string \<Rightarrow> string + jsval" where
  "get_prop None k =
     Inl (''Cannot read properties of undefined (reading '' @ [CHR 0x27] @ k @ [CHR 0x27] @ '')'')"
| "get_prop (Some JNull) k =
     Inl (''Cannot read properties of null (reading '' @ [CHR 0x27] @ k @ [CHR 0x27] @ '')'')"
| "get_prop (Some (JObj kvs)) k = Inr (map_of kvs k)"
| "get_prop (Some v) k = Inr None"

text \<open>\<^verbatim>\<open>v.length\<close> and \<^verbatim>\<open>v[0]\<close> of a value that is neither \<^verbatim>\<open>null\<close> nor \<^verbatim>\<open>undefined\<close>.\<close>

fun get_length :: "json \<Rightarrow> jsval" where
  "get_length (JArr xs) = Some (JNum (show_nat (length xs)))"
| "get_length (JStr s) = Some (JNum (show_nat (length s)))"
| "get_length (JObj kvs) = map_of kvs ''length''"
| "get_length v = None"

fun get_index0 :: "json \<Rightarrow> jsval" where
  "get_index0 (JArr xs) = (case xs of [] \<Rightarrow> None | x # _ \<Rightarrow> Some x)"
| "get_index0 (JStr s) = (case s of [] \<Rightarrow> None | c # _ \<Rightarrow> Some (JStr [c]))"
| "get_index0 (JObj kvs) = map_of kvs ''0''"
| "get_index0 v = None"

fun join :: "string \<Rightarrow> string list \<Rightarrow> string" where
  "join sep [] = []"
| "join sep [x] = x"
| "join sep (x # y # ys) = x @ sep @ join sep (y # ys)"

text \<open>
  \<^verbatim>\<open>String(v)\<close>, as a template string and \<^verbatim>\<open>new Error(v)\<close> apply it: an array is its
  elements joined by commas, \<^verbatim>\<open>null\<close> elements printing as nothing.
\<close>

fun to_string :: "json \<Rightarrow> string" where
  "to_string JNull = ''null''"
| "to_string (JBool b) = (if b then ''true'' else ''false'')"
| "to_string (JNum n) = n"
| "to_string (JStr s) = s"
| "to_string (JArr xs) = join '','' (map (\<lambda>x. if x = JNull then [] else to_string x) xs)"
| "to_string (JObj kvs) = ''[object Object]''"

definition template :: "jsval \<Rightarrow> string" where
  "template v = (case v of None \<Rightarrow> ''undefined'' | Some j \<Rightarrow> to_string j)"

text \<open>
  The two built-ins the code calls on JSON text are parameters of the model:
  \<^verbatim>\<open>JSON.parse\<close> (\<open>Inl\<close> the \<^verbatim>\<open>SyntaxError\<close>'s message when the text is not valid
  JSON) and \<^verbatim>\<open>JSON.stringify\<close>.
\<close>

record runtime =
  JSON_parse :: "string \<Rightarrow> string + json"
  JSON_stringify :: "json \<Rightarrow> string"

section \<open>HTTP as \<^verbatim>\<open>fetch\<close> shows it\<close>

text \<open>
  A request as \<^verbatim>\<open>fetch(url, options)\<close> receives it, and the \<^verbatim>\<open>Response\<close> it
  resolves to.  Reading the body (\<^verbatim>\<open>response.text()\<close>) can reject on its own:
  \<open>body_text\<close> is \<open>Inl\<close> the error's message then.  \<^verbatim>\<open>fetch\<close> itself is a function
  from the request to \<open>Inl\<close> the message of the error it rejects with, or \<open>Inr\<close> the
  response.
\<close>

record request =
  url :: string
  verb :: string
  headers :: "(string \<times> string) list"
  body :: "string option"

record response =
  status :: nat
  content_type :: "string option"
  body_text :: "string + string"

type_synonym fetch = "request \<Rightarrow> string + response"

definition ok :: "response \<Rightarrow> bool" where
  "ok r = (200 \<le> status r \<and> status r \<le> 299)"

section \<open>The relay proxy\<close>

text \<open>
  What Express has parsed of the local request (\<^verbatim>\<open>req.headers.authorization\<close>,
  \<^verbatim>\<open>req.body\<close>), and what the handler sends back: \<^verbatim>\<open>res.status(c).send()\<close> is
  \<open>NoBody\<close>, \<^verbatim>\<open>.send(text)\<close> is \<open>TextBody\<close>, \<^verbatim>\<open>.json(data)\<close> is \<open>JsonBody\<close>.
  Each proxy function returns the reply and the lines it wrote with
  \<^verbatim>\<open>console.error\<close>.
\<close>

record local_request =
  authorization :: "string option"
  req_body :: jsval

datatype payload = NoBody | TextBody string | JsonBody json

record reply =
  code :: nat
  payload :: payload

definition MAIL_API :: string where
  "MAIL_API = ''https://api.mail.tm''"

definition upstream_request :: "runtime \<Rightarrow> local_request \<Rightarrow> string \<Rightarrow> string \<Rightarrow> request" where
  "upstream_request rt req path method =
     \<lparr> url = MAIL_API @ path,
       verb = method,
       headers = (''Content-Type'', ''application/json'') #
         (case authorization req of
            None \<Rightarrow> []
          | Some a \<Rightarrow> if a = [] then [] else [(''Authorization'', a)]),
       body =
         (if method \<in> set [''POST'', ''PUT'', ''PATCH''] \<and> truthy (req_body req)
          then (case req_body req of None \<Rightarrow> None | Some b \<Rightarrow> Some (JSON_stringify rt b))
          else None) \<rparr>"

definition proxy_error :: "string \<Rightarrow> string \<Rightarrow> reply \<times> string list" where
  "proxy_error path msg =
     (\<lparr> code = 500,
        payload = JsonBody (JObj [(''error'', JStr ''Failed to fetch from mail service''),
                                  (''details'', JStr msg)]) \<rparr>,
      [''Proxy error for '' @ path @ '': '' @ msg])"

text \<open>The proxy helper of the router version that parses the text itself.\<close>

definition proxyRequest ::
  "runtime \<Rightarrow> fetch \<Rightarrow> local_request \<Rightarrow> string \<Rightarrow> string \<Rightarrow> reply \<times> string list" where
  "proxyRequest rt fetch req path method =
     (case fetch (upstream_request rt req path method) of
        Inl e \<Rightarrow> proxy_error path e
      | Inr r \<Rightarrow>
          if status r = 204 then (\<lparr> code = 204, payload = NoBody \<rparr>, [])
          else (case body_text r of
                  Inl e \<Rightarrow> proxy_error path e
                | Inr text \<Rightarrow>
                    if text = [] then (\<lparr> code = status r, payload = NoBody \<rparr>, [])
                    else (case JSON_parse rt text of
                            Inr data \<Rightarrow> (\<lparr> code = status r, payload = JsonBody data \<rparr>, [])
                          | Inl e \<Rightarrow> (\<lparr> code = status r, payload = TextBody text \<rparr>, []))))"

text \<open>
  \<^verbatim>\<open>response.json()\<close>: read the body, then parse it; it rejects when either fails
  (an empty body is not JSON).
\<close>

definition response_json :: "runtime \<Rightarrow> response \<Rightarrow> string + json" where
  "response_json rt r = (case body_text r of Inl e \<Rightarrow> Inl e | Inr text \<Rightarrow> JSON_parse rt text)"

text \<open>The proxy helper of the version whose routes are registered on the application.\<close>

definition proxyRequest_json ::
  "runtime \<Rightarrow> fetch \<Rightarrow> local_request \<Rightarrow> string \<Rightarrow> string \<Rightarrow> reply \<times> string list" where
  "proxyRequest_json rt fetch req path method =
     (case fetch (upstream_request rt req path method) of
        Inl e \<Rightarrow> proxy_error path e
      | Inr r \<Rightarrow>
          if status r = 204 then (\<lparr> code = 204, payload = NoBody \<rparr>, [])
          else (case response_json rt r of
                  Inl e \<Rightarrow> proxy_error path e
                | Inr data \<Rightarrow> (\<lparr> code = status r, payload = JsonBody data \<rparr>, [])))"

fun starts_with :: "string \<Rightarrow> string \<Rightarrow> bool" where
  "starts_with s [] = True"
| "starts_with [] (c # t) = False"
| "starts_with (d # s) (c # t) = (d = c \<and> starts_with s t)"

fun includes_str :: "string \<Rightarrow> string \<Rightarrow> bool" where
  "includes_str [] t = (t = [])"
| "includes_str (d # s) t = (starts_with (d # s) t \<or> includes_str s t)"

text \<open>The proxy helper of the router version that goes by the declared content type.\<close>

definition proxyRequest_ctype ::
  "runtime \<Rightarrow> fetch \<Rightarrow> local_request \<Rightarrow> string \<Rightarrow> string \<Rightarrow> reply \<times> string list" where
  "proxyRequest_ctype rt fetch req path method =
     (case fetch (upstream_request rt req path method) of
        Inl e \<Rightarrow> proxy_error path e
      | Inr r \<Rightarrow>
          if status r = 204 then (\<lparr> code = 204, payload = NoBody \<rparr>, [])
          else if (case content_type r of
                     None \<Rightarrow> False
                   | Some ct \<Rightarrow> ct \<noteq> [] \<and> includes_str ct ''application/json'')
          then (case response_json rt r of
                  Inl e \<Rightarrow> proxy_error path e
                | Inr data \<Rightarrow> (\<lparr> code = status r, payload = JsonBody data \<rparr>, []))
          else (case body_text r of
                  Inl e \<Rightarrow> proxy_error path e
                | Inr text \<Rightarrow> (\<lparr> code = status r, payload = TextBody text \<rparr>, [])))"

text \<open>The bytes of the body that goes out on the wire for a reply.\<close>

definition wire_body :: "runtime \<Rightarrow> payload \<Rightarrow> string" where
  "wire_body rt p =
     (case p of NoBody \<Rightarrow> [] | TextBody t \<Rightarrow> t | JsonBody j \<Rightarrow> JSON_stringify rt j)"


section \<open>The route set and its two mounts\<close>

text \<open>
  A request path is its list of segments (\<^verbatim>\<open>/api/mail/domains\<close> is
  \<open>[''api'', ''mail'', ''domains'']\<close>).  A route of the router is a method, a pattern
  of literal segments and named parameters, and the handler it builds from the
  parameters: \<open>Forward path method\<close> stands for
  \<^verbatim>\<open>(req, res) => proxyRequest(req, res, path, method)\<close>, \<open>Health\<close> for the health
  check.  The router answers with the first route, in registration order, whose method
  and pattern both match (segments and methods compared as they are written);
  \<open>None\<close> is Express's \<^verbatim>\<open>next()\<close>.
\<close>

datatype seg = Lit string | Param string

datatype handler = Forward string string | Health

type_synonym route = "string \<times> seg list \<times> ((string \<times> string) list \<Rightarrow> handler)"

fun match_path :: "seg list \<Rightarrow> string list \<Rightarrow> (string \<times> string) list option" where
  "match_path [] [] = Some []"
| "match_path (Lit s # ps) (x # xs) = (if s = x then match_path ps xs else None)"
| "match_path (Param n # ps) (x # xs) = map_option ((#) (n, x)) (match_path ps xs)"
| "match_path ps xs = None"

definition param :: "(string \<times> string) list \<Rightarrow> string \<Rightarrow> string" where
  "param ps n = (case map_of ps n of None \<Rightarrow> ''undefined'' | Some v \<Rightarrow> v)"

definition routes :: "route list" where
  "routes =
     [ (''GET'', [Lit ''mail'', Lit ''domains''], \<lambda>ps. Forward ''/domains'' ''GET''),
       (''POST'', [Lit ''mail'', Lit ''accounts''], \<lambda>ps. Forward ''/accounts'' ''POST''),
       (''POST'', [Lit ''mail'', Lit ''token''], \<lambda>ps. Forward ''/token'' ''POST''),
       (''GET'', [Lit ''mail'', Lit ''messages''], \<lambda>ps. Forward ''/messages'' ''GET''),
       (''GET'', [Lit ''mail'', Lit ''messages'', Param ''id''],
          \<lambda>ps. Forward (''/messages/'' @ param ps ''id'') ''GET''),
       (''DELETE'', [Lit ''mail'', Lit ''messages'', Param ''id''],
          \<lambda>ps. Forward (''/messages/'' @ param ps ''id'') ''DELETE''),
       (''GET'', [Lit ''health''], \<lambda>ps. Health) ]"

fun find_route :: "route list \<Rightarrow> string \<Rightarrow> string list \<Rightarrow> handler option" where
  "find_route [] m p = None"
| "find_route ((v, pat, h) # rs) m p =
     (if v = m then (case match_path pat p of Some ps \<Rightarrow> Some (h ps) | None \<Rightarrow> find_route rs m p)
      else find_route rs m p)"

definition router :: "string \<Rightarrow> string list \<Rightarrow> handler option" where
  "router m p = find_route routes m p"

text \<open>
  \<^verbatim>\<open>app.use(prefix, router)\<close>: when the path starts with the prefix's segments the
  router sees the rest of the path; when the router does not answer, or the prefix does
  not match, the next mount is tried.  The application mounts the router at
  \<^verbatim>\<open>/api\<close> and then at \<^verbatim>\<open>/\<close>.
\<close>

fun strip_mount :: "string list \<Rightarrow> string list \<Rightarrow> string list option" where
  "strip_mount [] p = Some p"
| "strip_mount (a # pre) [] = None"
| "strip_mount (a # pre) (x # p) = (if a = x then strip_mount pre p else None)"

fun dispatch :: "string list list \<Rightarrow> string \<Rightarrow> string list \<Rightarrow> handler option" where
  "dispatch [] m p = None"
| "dispatch (pre # rest) m p =
     (case strip_mount pre p of
        None \<Rightarrow> dispatch rest m p
      | Some q \<Rightarrow> (case router m q of Some h \<Rightarrow> Some h | None \<Rightarrow> dispatch rest m p))"

definition mounts :: "string list list" where
  "mounts = [[''api''], []]"

definition run_handler ::
  "runtime \<Rightarrow> fetch \<Rightarrow> local_request \<Rightarrow> handler \<Rightarrow> reply \<times> string list" where
  "run_handler rt fetch req h =
     (case h of
        Forward path method \<Rightarrow> proxyRequest rt fetch req path method
      | Health \<Rightarrow>
          (\<lparr> code = 200,
             payload = JsonBody (JObj [(''status'', JStr ''ok''),
                                       (''service'', JStr ''KAS Temp Mail Proxy'')]) \<rparr>, []))"

text \<open>
  The application on a request: \<open>None\<close> when no mount answers (Express then sends its
  own 404 page).
\<close>

definition app ::
  "runtime \<Rightarrow> fetch \<Rightarrow> local_request \<Rightarrow> string \<Rightarrow> string list \<Rightarrow> (reply \<times> string list) option" where
  "app rt fetch req m p = map_option (run_handler rt fetch req) (dispatch mounts m p)"


section \<open>The client session controller\<close>

text \<open>
  A computation of the client is its outcome (\<open>Inl\<close> the message of the error it throws)
  and the lines it wrote with \<^verbatim>\<open>console.error\<close> on the way.  \<open>andthen\<close> is sequencing:
  a throw skips the rest, the lines add up.
\<close>

type_synonym 'a comp = "(string + 'a) \<times> string list"

definition returns :: "'a \<Rightarrow> 'a comp" where
  "returns x = (Inr x, [])"

definition throws :: "string \<Rightarrow> 'a comp" where
  "throws e = (Inl e, [])"

definition attempt :: "string + 'a \<Rightarrow> 'a comp" where
  "attempt r = (r, [])"

definition andthen :: "'a comp \<Rightarrow> ('a \<Rightarrow> 'b comp) \<Rightarrow> 'b comp" where
  "andthen m f =
     (case m of
        (Inl e, l) \<Rightarrow> (Inl e, l)
      | (Inr x, l) \<Rightarrow> (case f x of (r, l') \<Rightarrow> (r, l @ l')))"

text \<open>
  What the browser gives one run of an operation: the two JSON built-ins, \<^verbatim>\<open>fetch\<close>,
  the texts of \<^verbatim>\<open>Math.random().toString(36)\<close> for the first and the second call, and
  whether \<^verbatim>\<open>localStorage.setItem\<close> throws (\<open>Some\<close> the message).
\<close>

record browser = runtime +
  net :: fetch
  random1 :: string
  random2 :: string
  setItem_error :: "string option"

record account =
  acc_id :: jsval
  address :: string
  token :: json

text \<open>
  The component's state that the controller reads and writes, with the stored item
  \<^verbatim>\<open>kas_temp_mail_account\<close> of local storage and the console.  \<open>messages\<close> and
  \<open>selectedMessage\<close> hold whatever JSON the server sent (\<open>JNull\<close> is \<^verbatim>\<open>null\<close>, no
  message open); the \<open>copied\<close> flag of the view is left out.
\<close>

record app_state =
  account :: "account option"
  messages :: json
  selectedMessage :: json
  loading :: bool
  fetchingMessages :: bool
  error :: "string option"
  stored :: "string option"
  console :: "string list"

definition API_BASE :: string where
  "API_BASE = ''/api/mail''"

text \<open>\<^verbatim>\<open>r.substring(2, 2 + length)\<close> of \<open>r = Math.random().toString(36)\<close>.\<close>

definition generateRandomString :: "string \<Rightarrow> nat \<Rightarrow> string" where
  "generateRandomString r len = take len (drop 2 r)"

definition safeJson :: "('a runtime_scheme) \<Rightarrow> response \<Rightarrow> json comp" where
  "safeJson rt r =
     (case body_text r of
        Inl e \<Rightarrow> throws e
      | Inr text \<Rightarrow>
          if text = [] then returns (JObj [])
          else (case JSON_parse rt text of
                  Inr v \<Rightarrow> returns v
                | Inl e \<Rightarrow> (Inr (JObj []), [''Failed to parse JSON: '' @ text])))"

text \<open>
  \<^verbatim>\<open>throw new Error(errorData.message || errorData.error || fallback)\<close>.
\<close>

definition throw_failure :: "json \<Rightarrow> string \<Rightarrow> 'a comp" where
  "throw_failure errorData fallback =
     andthen (attempt (get_prop (Some errorData) ''message'')) (\<lambda>m.
       if truthy m then throws (template m)
       else andthen (attempt (get_prop (Some errorData) ''error'')) (\<lambda>e.
         if truthy e then throws (template e) else throws fallback))"

definition post_credentials :: "('a runtime_scheme) \<Rightarrow> string \<Rightarrow> string \<Rightarrow> string \<Rightarrow> request" where
  "post_credentials rt u addr password =
     \<lparr> url = u, verb = ''POST'',
       headers = [(''Content-Type'', ''application/json'')],
       body = Some (JSON_stringify rt
                (JObj [(''address'', JStr addr), (''password'', JStr password)])) \<rparr>"

text \<open>Step 1 of \<^verbatim>\<open>createAccount\<close>: the domain of the first entry of the domain list.\<close>

definition get_domain :: "browser \<Rightarrow> jsval comp" where
  "get_domain env =
     andthen (attempt (net env \<lparr> url = API_BASE @ ''/domains'', verb = ''GET'',
                                headers = [], body = None \<rparr>)) (\<lambda>domainsRes.
       if \<not> ok domainsRes
       then andthen (attempt (body_text domainsRes)) (\<lambda>errorText.
              throws (''Domain fetch failed: '' @ show_nat (status domainsRes) @ '' '' @ errorText))
       else andthen (safeJson env domainsRes) (\<lambda>domainsData.
         andthen (attempt (get_prop (Some domainsData) ''error'')) (\<lambda>err.
           if truthy err then throws (template err)
           else andthen (attempt (get_prop (Some domainsData) ''hydra:member'')) (\<lambda>members.
             case members of
               None \<Rightarrow> throws ''No email domains available at the moment. Please try again later.''
             | Some mv \<Rightarrow>
                 if \<not> truthy (Some mv) \<or> get_length mv = Some (JNum ''0'')
                 then throws ''No email domains available at the moment. Please try again later.''
                 else attempt (get_prop (get_index0 mv) ''domain'')))))"

text \<open>Step 2: the account-creation call; its parsed answer.\<close>

definition create_call :: "browser \<Rightarrow> string \<Rightarrow> string \<Rightarrow> json comp" where
  "create_call env addr password =
     andthen (attempt (net env (post_credentials env (API_BASE @ ''/accounts'') addr password)))
       (\<lambda>createRes.
          if \<not> ok createRes
          then andthen (safeJson env createRes) (\<lambda>errorData.
                 throw_failure errorData ''Failed to create account'')
          else safeJson env createRes)"

text \<open>Step 3: the token call; the token, which must be truthy.\<close>

definition token_call :: "browser \<Rightarrow> string \<Rightarrow> string \<Rightarrow> json comp" where
  "token_call env addr password =
     andthen (attempt (net env (post_credentials env (API_BASE @ ''/token'') addr password)))
       (\<lambda>tokenRes.
          if \<not> ok tokenRes
          then andthen (safeJson env tokenRes) (\<lambda>errorData.
                 throw_failure errorData ''Failed to get token'')
          else andthen (safeJson env tokenRes) (\<lambda>tokenData.
                 andthen (attempt (get_prop (Some tokenData) ''token'')) (\<lambda>tok.
                   case tok of
                     None \<Rightarrow> throws ''Token not received from server''
                   | Some t \<Rightarrow>
                       if \<not> truthy (Some t) then throws ''Token not received from server''
                       else returns t)))"

text \<open>The body of the \<^verbatim>\<open>try\<close> block of \<^verbatim>\<open>createAccount\<close> up to \<open>newAccount\<close>.\<close>

definition acquire :: "browser \<Rightarrow> account comp" where
  "acquire env =
     andthen (get_domain env) (\<lambda>domain.
       let username = generateRandomString (random1 env) 10;
           password = generateRandomString (random2 env) 12;
           addr = username @ ''@'' @ template domain
       in andthen (create_call env addr password) (\<lambda>accountData.
            andthen (token_call env addr password) (\<lambda>t.
              andthen (attempt (get_prop (Some accountData) ''id'')) (\<lambda>i.
                returns \<lparr> acc_id = i, address = addr, token = t \<rparr>))))"

text \<open>\<^verbatim>\<open>JSON.stringify\<close> sees \<open>newAccount\<close> without its \<open>id\<close> when that is \<^verbatim>\<open>undefined\<close>.\<close>

definition account_json :: "account \<Rightarrow> json" where
  "account_json a =
     JObj ((case acc_id a of None \<Rightarrow> [] | Some i \<Rightarrow> [(''id'', i)]) @
           [(''address'', JStr (address a)), (''token'', token a)])"

definition shown :: "string \<Rightarrow> string" where
  "shown msg = (if msg = [] then ''An error occurred'' else msg)"

definition createAccount :: "browser \<Rightarrow> app_state \<Rightarrow> app_state" where
  "createAccount env st =
     (let st1 = st\<lparr> loading := True, error := None \<rparr> in
      case acquire env of
        (Inl msg, logs) \<Rightarrow>
          st1\<lparr> error := Some (shown msg), loading := False, console := console st @ logs \<rparr>
      | (Inr newAccount, logs) \<Rightarrow>
          (case setItem_error env of
             Some msg \<Rightarrow>
               st1\<lparr> account := Some newAccount, error := Some (shown msg), loading := False,
                    console := console st @ logs \<rparr>
           | None \<Rightarrow>
               st1\<lparr> account := Some newAccount,
                    stored := Some (JSON_stringify env (account_json newAccount)),
                    messages := JArr [], loading := False, console := console st @ logs \<rparr>))"


text \<open>A call that carries the bearer token of the active account.\<close>

definition authorized :: "account \<Rightarrow> string \<Rightarrow> string \<Rightarrow> request" where
  "authorized a u method =
     \<lparr> url = u, verb = method,
       headers = [(''Authorization'', ''Bearer '' @ to_string (token a))],
       body = None \<rparr>"

text \<open>The \<^verbatim>\<open>try\<close> block of \<^verbatim>\<open>fetchMessages\<close>: the value handed to \<^verbatim>\<open>setMessages\<close>.\<close>

definition poll :: "browser \<Rightarrow> account \<Rightarrow> json comp" where
  "poll env a =
     andthen (attempt (net env (authorized a (API_BASE @ ''/messages'') ''GET''))) (\<lambda>res.
       if \<not> ok res then throws ''Failed to fetch messages''
       else andthen (safeJson env res) (\<lambda>data.
         andthen (attempt (get_prop (Some data) ''hydra:member'')) (\<lambda>member.
           case member of
             None \<Rightarrow> returns (JArr [])
           | Some v \<Rightarrow> if truthy (Some v) then returns v else returns (JArr []))))"

definition fetchMessages :: "browser \<Rightarrow> app_state \<Rightarrow> app_state" where
  "fetchMessages env st =
     (case account st of
        None \<Rightarrow> st
      | Some a \<Rightarrow>
          (case poll env a of
             (Inl e, logs) \<Rightarrow>
               st\<lparr> fetchingMessages := False, console := console st @ logs @ [e] \<rparr>
           | (Inr v, logs) \<Rightarrow>
               st\<lparr> messages := v, fetchingMessages := False, console := console st @ logs \<rparr>))"

text \<open>
  The two state updaters run over the previous list when React renders next.  An error
  thrown there is outside every \<^verbatim>\<open>try\<close> of the component: it is \<open>Inl\<close> of the
  operation, the component tree being torn down.  \<^verbatim>\<open>prev.map\<close> and \<^verbatim>\<open>prev.filter\<close>
  exist on arrays only, and \<^verbatim>\<open>m.id\<close> throws on a \<^verbatim>\<open>null\<close> entry.
\<close>

fun map_throwing :: "('a \<Rightarrow> string + 'b) \<Rightarrow> 'a list \<Rightarrow> string + 'b list" where
  "map_throwing f [] = Inr []"
| "map_throwing f (x # xs) =
     (case f x of
        Inl e \<Rightarrow> Inl e
      | Inr y \<Rightarrow> (case map_throwing f xs of Inl e \<Rightarrow> Inl e | Inr ys \<Rightarrow> Inr (y # ys)))"

fun filter_throwing :: "('a \<Rightarrow> string + bool) \<Rightarrow> 'a list \<Rightarrow> string + 'a list" where
  "filter_throwing f [] = Inr []"
| "filter_throwing f (x # xs) =
     (case f x of
        Inl e \<Rightarrow> Inl e
      | Inr b \<Rightarrow> (case filter_throwing f xs of
                    Inl e \<Rightarrow> Inl e
                  | Inr ys \<Rightarrow> Inr (if b then x # ys else ys)))"

text \<open>The own properties \<^verbatim>\<open>{...m}\<close> copies, in order.\<close>

fun own_props :: "json \<Rightarrow> (string \<times> json) list" where
  "own_props (JObj kvs) = kvs"
| "own_props (JArr xs) = zip (map show_nat [0..<length xs]) xs"
| "own_props (JStr s) = zip (map show_nat [0..<length s]) (map (\<lambda>c. JStr [c]) s)"
| "own_props v = []"

text \<open>\<^verbatim>\<open>m.id === id ? { ...m, seen: true } : m\<close>\<close>

definition mark_one :: "string \<Rightarrow> json \<Rightarrow> string + json" where
  "mark_one i m =
     (case get_prop (Some m) ''id'' of
        Inl e \<Rightarrow> Inl e
      | Inr v \<Rightarrow>
          Inr (if v = Some (JStr i) then JObj (AList.update ''seen'' (JBool True) (own_props m))
               else m))"

definition mark_seen :: "string \<Rightarrow> json \<Rightarrow> string + json" where
  "mark_seen i prev =
     (case prev of
        JArr xs \<Rightarrow> (case map_throwing (mark_one i) xs of Inl e \<Rightarrow> Inl e | Inr ys \<Rightarrow> Inr (JArr ys))
      | _ \<Rightarrow> Inl ''prev.map is not a function'')"

text \<open>\<^verbatim>\<open>m.id !== id\<close>\<close>

definition keep_one :: "string \<Rightarrow> json \<Rightarrow> string + bool" where
  "keep_one i m =
     (case get_prop (Some m) ''id'' of Inl e \<Rightarrow> Inl e | Inr v \<Rightarrow> Inr (v \<noteq> Some (JStr i)))"

definition remove_id :: "string \<Rightarrow> json \<Rightarrow> string + json" where
  "remove_id i prev =
     (case prev of
        JArr xs \<Rightarrow> (case filter_throwing (keep_one i) xs of Inl e \<Rightarrow> Inl e | Inr ys \<Rightarrow> Inr (JArr ys))
      | _ \<Rightarrow> Inl ''prev.filter is not a function'')"

text \<open>The \<^verbatim>\<open>try\<close> block of \<^verbatim>\<open>fetchMessageDetail\<close> up to the parsed detail.\<close>

definition detail :: "browser \<Rightarrow> account \<Rightarrow> string \<Rightarrow> json comp" where
  "detail env a i =
     andthen (attempt (net env (authorized a (API_BASE @ ''/messages/'' @ i) ''GET''))) (\<lambda>res.
       if \<not> ok res then throws ''Failed to fetch message detail''
       else safeJson env res)"

definition fetchMessageDetail :: "browser \<Rightarrow> string \<Rightarrow> app_state \<Rightarrow> string + app_state" where
  "fetchMessageDetail env i st =
     (case account st of
        None \<Rightarrow> Inr st
      | Some a \<Rightarrow>
          (case detail env a i of
             (Inl e, logs) \<Rightarrow>
               Inr (st\<lparr> error := Some e, loading := False, console := console st @ logs \<rparr>)
           | (Inr data, logs) \<Rightarrow>
               (case mark_seen i (messages st) of
                  Inl e \<Rightarrow> Inl e
                | Inr ms \<Rightarrow>
                    Inr (st\<lparr> selectedMessage := data, messages := ms, loading := False,
                             console := console st @ logs \<rparr>))))"

text \<open>\<^verbatim>\<open>selectedMessage?.id\<close>\<close>

definition selected_id :: "json \<Rightarrow> jsval" where
  "selected_id sel =
     (case sel of
        JNull \<Rightarrow> None
      | _ \<Rightarrow> (case get_prop (Some sel) ''id'' of Inl e \<Rightarrow> None | Inr v \<Rightarrow> v))"

definition deleteMessage :: "browser \<Rightarrow> string \<Rightarrow> app_state \<Rightarrow> string + app_state" where
  "deleteMessage env i st =
     (case account st of
        None \<Rightarrow> Inr st
      | Some a \<Rightarrow>
          (case net env (authorized a (API_BASE @ ''/messages/'' @ i) ''DELETE'') of
             Inl e \<Rightarrow> Inr (st\<lparr> console := console st @ [e] \<rparr>)
           | Inr res \<Rightarrow>
               (case remove_id i (messages st) of
                  Inl e \<Rightarrow> Inl e
                | Inr ms \<Rightarrow>
                    Inr (st\<lparr> messages := ms,
                             selectedMessage :=
                               (if selected_id (selectedMessage st) = Some (JStr i) then JNull
                                else selectedMessage st) \<rparr>))))"

text \<open>
  The polling effect keeps its interval exactly while there is an account: it is set up
  when \<open>account\<close> becomes non-null and cleared when \<open>account\<close> changes.
\<close>

definition polling :: "app_state \<Rightarrow> bool" where
  "polling st = (account st \<noteq> None)"

subsection \<open>Runs of the controller\<close>

datatype event = Acquire | Poll | Detail string | Delete string

fun step :: "browser \<Rightarrow> event \<Rightarrow> app_state \<Rightarrow> string + app_state" where
  "step env Acquire st = Inr (createAccount env st)"
| "step env Poll st = Inr (fetchMessages env st)"
| "step env (Detail i) st = fetchMessageDetail env i st"
| "step env (Delete i) st = deleteMessage env i st"

fun run :: "(browser \<times> event) list \<Rightarrow> app_state \<Rightarrow> string + app_state" where
  "run [] st = Inr st"
| "run ((env, ev) # rest) st =
     (case step env ev st of Inl e \<Rightarrow> Inl e | Inr st' \<Rightarrow> run rest st')"

text \<open>The entries of the message list, and what the view reads of one entry.\<close>

definition entries :: "json \<Rightarrow> json list" where
  "entries ms = (case ms of JArr xs \<Rightarrow> xs | _ \<Rightarrow> [])"

definition has_id :: "string \<Rightarrow> json \<Rightarrow> bool" where
  "has_id i m = (get_prop (Some m) ''id'' = Inr (Some (JStr i)))"

definition seen_flag :: "json \<Rightarrow> bool" where
  "seen_flag m = (get_prop (Some m) ''seen'' = Inr (Some (JBool True)))"

definition listed :: "string \<Rightarrow> app_state \<Rightarrow> bool" where
  "listed i st = list_ex (has_id i) (entries (messages st))"

definition all_seen :: "string \<Rightarrow> app_state \<Rightarrow> bool" where
  "all_seen i st = list_all (\<lambda>m. has_id i m \<longrightarrow> seen_flag m) (entries (messages st))"

text \<open>A poll that reaches \<^verbatim>\<open>setMessages\<close>: the one step that replaces the list.\<close>

definition replaces :: "browser \<Rightarrow> event \<Rightarrow> app_state \<Rightarrow> bool" where
  "replaces env ev st =
     (case ev of
        Poll \<Rightarrow> (case account st of
                   None \<Rightarrow> False
                 | Some a \<Rightarrow> (case fst (poll env a) of Inl e \<Rightarrow> False | Inr v \<Rightarrow> True))
      | _ \<Rightarrow> False)"

fun quiet :: "(browser \<times> event) list \<Rightarrow> app_state \<Rightarrow> bool" where
  "quiet [] st = True"
| "quiet ((env, ev) # rest) st =
     (\<not> replaces env ev st \<and>
      (case step env ev st of Inl e \<Rightarrow> True | Inr st' \<Rightarrow> quiet rest st'))"


section \<open>Worked inputs\<close>

text \<open>
  A runtime for concrete runs: \<open>parse_listed\<close> is \<^verbatim>\<open>JSON.parse\<close> on the documents of
  a table (every other text the runs below use is not JSON), \<open>print_json\<close> is
  \<^verbatim>\<open>JSON.stringify\<close> on values whose strings need no escape but the quote and the
  backslash.  \<open>canned\<close> is a server that answers from a table of method and URL and is
  unreachable otherwise.
\<close>

definition quote :: "string \<Rightarrow> string" where
  "quote s =
     CHR 0x22 #
     concat (map (\<lambda>c. if c = CHR 0x22 \<or> c = CHR 0x5C then [CHR 0x5C, c] else [c]) s) @
     [CHR 0x22]"

fun print_json :: "json \<Rightarrow> string" where
  "print_json JNull = ''null''"
| "print_json (JBool b) = (if b then ''true'' else ''false'')"
| "print_json (JNum n) = n"
| "print_json (JStr s) = quote s"
| "print_json (JArr xs) = ''['' @ join '','' (map print_json xs) @ '']''"
| "print_json (JObj kvs) =
     ''{'' @ join '','' (map (\<lambda>(k, v). quote k @ '':'' @ print_json v) kvs) @ ''}''"

definition parse_listed :: "(string \<times> json) list \<Rightarrow> string \<Rightarrow> string + json" where
  "parse_listed docs text =
     (case map_of docs text of Some v \<Rightarrow> Inr v | None \<Rightarrow> Inl ''Unexpected token'')"

definition message :: "string \<Rightarrow> bool \<Rightarrow> json" where
  "message i b = JObj [(''id'', JStr i), (''seen'', JBool b)]"

definition opened :: json where
  "opened = JObj [(''id'', JStr ''m1''), (''seen'', JBool False), (''text'', JStr ''hi'')]"

definition documents :: "(string \<times> json) list" where
  \<open>documents =
     [ (''{"hydra:member":[{"domain":"test.dev"}]}'',
          JObj [(''hydra:member'', JArr [JObj [(''domain'', JStr ''test.dev'')]])]),
       (''{"id":"a1"}'', JObj [(''id'', JStr ''a1'')]),
       (''{"token":"t1"}'', JObj [(''token'', JStr ''t1'')]),
       (''{}'', JObj []),
       (''null'', JNull),
       (''{"hydra:member":[{"id":"m1","seen":false}]}'',
          JObj [(''hydra:member'', JArr [message ''m1'' False])]),
       (''{"id":"m1","seen":false,"text":"hi"}'', opened) ]\<close>

definition node :: runtime where
  "node = \<lparr> JSON_parse = parse_listed documents, JSON_stringify = print_json \<rparr>"

definition answer :: "nat \<Rightarrow> string \<Rightarrow> string \<Rightarrow> response" where
  "answer c ct text = \<lparr> status = c, content_type = Some ct, body_text = Inr text \<rparr>"

definition canned :: "((string \<times> string) \<times> response) list \<Rightarrow> fetch" where
  "canned table req =
     (case map_of table (verb req, url req) of
        Some r \<Rightarrow> Inr r
      | None \<Rightarrow> Inl ''Failed to fetch'')"

definition chrome :: "((string \<times> string) \<times> response) list \<Rightarrow> string \<Rightarrow> string \<Rightarrow> browser" where
  "chrome table r1 r2 =
     \<lparr> JSON_parse = parse_listed documents, JSON_stringify = print_json,
       net = canned table, random1 = r1, random2 = r2, setItem_error = None \<rparr>"

definition old_account :: account where
  "old_account = \<lparr> acc_id = Some (JStr ''a0''), address = ''old@test.dev'', token = JStr ''t0'' \<rparr>"

definition session :: "json list \<Rightarrow> json \<Rightarrow> app_state" where
  "session ms sel =
     \<lparr> account = Some old_account, messages = JArr ms, selectedMessage = sel,
       loading = False, fetchingMessages = False, error = None,
       stored = Some (print_json (account_json old_account)), console = [] \<rparr>"

text \<open>
  Servers: one on which the token call answers without a token, one with a one-message
  inbox, one whose message list answers a given text, one that answers every message call
  with an error status.
\<close>

definition signup_calls :: "((string \<times> string) \<times> response) list" where
  \<open>signup_calls =
     [ ((''GET'', ''/api/mail/domains''),
          answer 200 ''application/json'' ''{"hydra:member":[{"domain":"test.dev"}]}''),
       ((''POST'', ''/api/mail/accounts''), answer 201 ''application/json'' ''{"id":"a1"}'') ]\<close>

definition no_token_server :: "((string \<times> string) \<times> response) list" where
  \<open>no_token_server =
     signup_calls @ [((''POST'', ''/api/mail/token''), answer 200 ''application/json'' ''{}'')]\<close>

definition token_server :: "((string \<times> string) \<times> response) list" where
  \<open>token_server =
     signup_calls @
     [((''POST'', ''/api/mail/token''), answer 200 ''application/json'' ''{"token":"t1"}'')]\<close>

definition inbox_server :: "((string \<times> string) \<times> response) list" where
  \<open>inbox_server =
     [ ((''GET'', ''/api/mail/messages''),
          answer 200 ''application/json'' ''{"hydra:member":[{"id":"m1","seen":false}]}''),
       ((''GET'', ''/api/mail/messages/m1''),
          answer 200 ''application/json'' ''{"id":"m1","seen":false,"text":"hi"}''),
       ((''DELETE'', ''/api/mail/messages/m1''), \<lparr> status = 204, content_type = None, body_text = Inr [] \<rparr>),
       ((''DELETE'', ''/api/mail/messages/m2''), \<lparr> status = 204, content_type = None, body_text = Inr [] \<rparr>) ]\<close>

definition list_server :: "string \<Rightarrow> ((string \<times> string) \<times> response) list" where
  "list_server text = [((''GET'', ''/api/mail/messages''), answer 200 ''application/json'' text)]"

definition failing_server :: "((string \<times> string) \<times> response) list" where
  \<open>failing_server =
     [ ((''GET'', ''/api/mail/messages''), answer 500 ''text/html'' ''down''),
       ((''GET'', ''/api/mail/messages/m1''), answer 404 ''text/html'' ''gone'') ]\<close>

definition bad_gateway :: "((string \<times> string) \<times> response) list" where
  \<open>bad_gateway =
     [ ((''GET'', ''https://api.mail.tm/messages/x''), answer 502 ''text/html'' ''Bad Gateway''),
       ((''DELETE'', ''https://api.mail.tm/messages/x''), answer 204 ''application/json'' ''ignored'') ]\<close>


section \<open>Properties of the relay proxy\<close>

lemma upstream_request_parse [simp]:
  "upstream_request (rt\<lparr>JSON_parse := p\<rparr>) req path method = upstream_request rt req path method"
  by (simp add: upstream_request_def split: option.splits)

lemma proxyRequest_one_call:
  "fetch (upstream_request rt req path method) = fetch' (upstream_request rt req path method) \<Longrightarrow>
     proxyRequest rt fetch req path method = proxyRequest rt fetch' req path method"
  by (simp add: proxyRequest_def)

lemmas proxy_inputs = node_def canned_def parse_listed_def documents_def answer_def
  MAIL_API_def upstream_request_def bad_gateway_def

text \<open>
  The text-parsing helper forwards a body that is not JSON as it came, with the
  upstream status, and logs nothing: an empty text goes out as an empty body.
\<close>

lemma proxyRequest_raw_text:
  "fetch (upstream_request rt req path method) = Inr r \<Longrightarrow> status r \<noteq> 204 \<Longrightarrow>
   body_text r = Inr text \<Longrightarrow> JSON_parse rt text = Inl e \<Longrightarrow>
     code (fst (proxyRequest rt fetch req path method)) = status r \<and>
     wire_body rt (payload (fst (proxyRequest rt fetch req path method))) = text \<and>
     snd (proxyRequest rt fetch req path method) = []"
  by (simp add: proxyRequest_def wire_body_def)

lemma proxyRequest_ctype_declared_json:
  "fetch (upstream_request rt req path method) = Inr r \<Longrightarrow> status r \<noteq> 204 \<Longrightarrow>
   content_type r = Some ''application/json'' \<Longrightarrow>
   body_text r = Inr text \<Longrightarrow> JSON_parse rt text = Inl e \<Longrightarrow>
     proxyRequest_ctype rt fetch req path method = proxy_error path e"
  by (simp add: proxyRequest_ctype_def response_json_def)

text \<open>
  C3. An upstream answer that is not 204 and whose body is not JSON should come back
  with its own status and its raw text.  The helper that calls \<^verbatim>\<open>response.json()\<close>
  does not do that: on the answer 502 with the text \<open>Bad Gateway\<close> it replies 500 with
  the error payload, the parse error as \<open>details\<close>, where the text-parsing helper
  replies 502 with the text.
\<close>

theorem proxyRequest_json_parse_error:
  "proxyRequest_json node (canned bad_gateway) \<lparr>authorization = None, req_body = None\<rparr>
      ''/messages/x'' ''GET'' =
     (\<lparr>code = 500,
       payload = JsonBody (JObj [(''error'', JStr ''Failed to fetch from mail service''),
                                 (''details'', JStr ''Unexpected token'')])\<rparr>,
      [''Proxy error for /messages/x: Unexpected token'']) \<and>
   proxyRequest node (canned bad_gateway) \<lparr>authorization = None, req_body = None\<rparr>
      ''/messages/x'' ''GET'' =
     (\<lparr>code = 502, payload = TextBody ''Bad Gateway''\<rparr>, [])"
  by (simp add: proxyRequest_json_def proxyRequest_def response_json_def proxy_error_def
      proxy_inputs)

text \<open>
  C4. An upstream answer with status 204 is answered 204 with no body, whatever content
  type the answer declares, whatever its body is and even if the body cannot be read,
  and whatever the parser would do: nothing is parsed.  All three helpers agree.
\<close>

theorem no_content:
  "fetch (upstream_request rt req path method) = Inr r \<Longrightarrow> status r = 204 \<Longrightarrow>
     proxyRequest (rt\<lparr>JSON_parse := p\<rparr>) fetch req path method =
       (\<lparr>code = 204, payload = NoBody\<rparr>, []) \<and>
     proxyRequest_json (rt\<lparr>JSON_parse := p\<rparr>) fetch req path method =
       (\<lparr>code = 204, payload = NoBody\<rparr>, []) \<and>
     proxyRequest_ctype (rt\<lparr>JSON_parse := p\<rparr>) fetch req path method =
       (\<lparr>code = 204, payload = NoBody\<rparr>, []) \<and>
     wire_body rt (payload (fst (proxyRequest rt fetch req path method))) = []"
  by (simp add: proxyRequest_def proxyRequest_json_def proxyRequest_ctype_def wire_body_def)

theorem no_content_witness:
  "canned bad_gateway
      (upstream_request node \<lparr>authorization = Some ''Bearer t0'', req_body = None\<rparr>
         ''/messages/x'' ''DELETE'') =
     Inr (answer 204 ''application/json'' ''ignored'') \<and>
   status (answer 204 ''application/json'' ''ignored'') = 204 \<and>
   proxyRequest (node\<lparr>JSON_parse := \<lambda>t. Inl ''never called''\<rparr>) (canned bad_gateway)
      \<lparr>authorization = Some ''Bearer t0'', req_body = None\<rparr> ''/messages/x'' ''DELETE'' =
     (\<lparr>code = 204, payload = NoBody\<rparr>, [])"
proof -
  have f: "canned bad_gateway
      (upstream_request node \<lparr>authorization = Some ''Bearer t0'', req_body = None\<rparr>
         ''/messages/x'' ''DELETE'') =
     Inr (answer 204 ''application/json'' ''ignored'')"
    by (simp add: proxy_inputs)
  have s: "status (answer 204 ''application/json'' ''ignored'') = 204"
    by (simp add: answer_def)
  from no_content [where fetch = "canned bad_gateway" and rt = node
        and p = "\<lambda>t. Inl ''never called''", OF f s] f s
  show ?thesis by simp
qed

text \<open>
  C5. For POST, PUT and PATCH with a body supplied (\<^verbatim>\<open>req.body\<close> truthy, as every
  object or array is) the upstream request carries the serialisation of that body; for
  GET and DELETE it carries no body, whatever was supplied.  The request built here is
  the one \<open>proxyRequest\<close> hands to \<^verbatim>\<open>fetch\<close>.
\<close>

theorem forwarded_body:
  "(method \<in> {''POST'', ''PUT'', ''PATCH''} \<and> req_body req = Some b \<and> truthy (Some b)
      \<longrightarrow> body (upstream_request rt req path method) = Some (JSON_stringify rt b)) \<and>
   (method \<in> {''GET'', ''DELETE''} \<longrightarrow> body (upstream_request rt req path method) = None)"
  by (auto simp: upstream_request_def)

theorem forwarded_body_witness:
  \<open>body (upstream_request node
       \<lparr>authorization = None, req_body = Some (JObj [(''address'', JStr ''a@test.dev'')])\<rparr>
       ''/accounts'' ''POST'') = Some ''{"address":"a@test.dev"}'' \<and>
   body (upstream_request node
       \<lparr>authorization = None, req_body = Some (JObj [(''address'', JStr ''a@test.dev'')])\<rparr>
       ''/messages/x'' ''DELETE'') = None\<close>
  using
    forwarded_body [of "''POST''"
      "\<lparr>authorization = None, req_body = Some (JObj [(''address'', JStr ''a@test.dev'')])\<rparr>"
      "JObj [(''address'', JStr ''a@test.dev'')]" node "''/accounts''"]
    forwarded_body [of "''DELETE''"
      "\<lparr>authorization = None, req_body = Some (JObj [(''address'', JStr ''a@test.dev'')])\<rparr>"
      "JObj [(''address'', JStr ''a@test.dev'')]" node "''/messages/x''"]
  by (simp add: node_def quote_def)

lemma router_api_none: "router m (''api'' # q) = None"
  by (simp add: router_def routes_def)

lemma router_listed:
  "router ''GET'' [''mail'', ''domains''] = Some (Forward ''/domains'' ''GET'')"
  "router ''POST'' [''mail'', ''accounts''] = Some (Forward ''/accounts'' ''POST'')"
  "router ''POST'' [''mail'', ''token''] = Some (Forward ''/token'' ''POST'')"
  "router ''GET'' [''mail'', ''messages''] = Some (Forward ''/messages'' ''GET'')"
  "router ''GET'' [''mail'', ''messages'', i] = Some (Forward (''/messages/'' @ i) ''GET'')"
  "router ''DELETE'' [''mail'', ''messages'', i] = Some (Forward (''/messages/'' @ i) ''DELETE'')"
  "router ''GET'' [''health''] = Some Health"
  by (simp_all add: router_def routes_def param_def)

lemma dispatch_prefixed: "router m p = Some h \<Longrightarrow> dispatch mounts m (''api'' # p) = Some h"
  by (simp add: mounts_def)

lemma dispatch_unprefixed: "router m p = Some h \<Longrightarrow> dispatch mounts m p = Some h"
  by (cases p) (auto simp: mounts_def router_api_none)

text \<open>
  C9. The router, with its seven routes (\<open>router_listed\<close>), is mounted at \<^verbatim>\<open>/api\<close> and
  at the root: a request that a route of the set answers gets the same handler, run on
  the same request, whether its path carries the prefix or not.
\<close>

theorem mounted_twice:
  "router m p = Some h \<Longrightarrow>
     app rt fetch req m (''api'' # p) = Some (run_handler rt fetch req h) \<and>
     app rt fetch req m p = Some (run_handler rt fetch req h)"
  by (simp add: app_def dispatch_prefixed dispatch_unprefixed)

theorem mounted_twice_witness:
  "router ''DELETE'' [''mail'', ''messages'', ''x''] = Some (Forward ''/messages/x'' ''DELETE'') \<and>
   app node (canned bad_gateway) \<lparr>authorization = None, req_body = None\<rparr> ''DELETE''
       [''api'', ''mail'', ''messages'', ''x''] = Some (\<lparr>code = 204, payload = NoBody\<rparr>, []) \<and>
   app node (canned bad_gateway) \<lparr>authorization = None, req_body = None\<rparr> ''DELETE''
       [''mail'', ''messages'', ''x''] = Some (\<lparr>code = 204, payload = NoBody\<rparr>, [])"
proof -
  have r: "router ''DELETE'' [''mail'', ''messages'', ''x''] = Some (Forward ''/messages/x'' ''DELETE'')"
    using router_listed(6) [of "''x''"] by simp
  have h: "run_handler node (canned bad_gateway) \<lparr>authorization = None, req_body = None\<rparr>
             (Forward ''/messages/x'' ''DELETE'') = (\<lparr>code = 204, payload = NoBody\<rparr>, [])"
    by (simp add: run_handler_def proxyRequest_def proxy_inputs)
  from mounted_twice [OF r, of node "canned bad_gateway" "\<lparr>authorization = None, req_body = None\<rparr>"]
    r h show ?thesis by simp
qed

section \<open>Properties of the session controller\<close>

lemma andthen_pair [simp]:
  "andthen (Inl e, l) f = (Inl e, l)"
  "andthen (Inr x, l) f = (case f x of (r, l') \<Rightarrow> (r, l @ l'))"
  by (simp_all add: andthen_def)

lemma fst_andthen_Inl:
  "fst (andthen m f) = Inl e \<longleftrightarrow>
     fst m = Inl e \<or> (\<exists>x. fst m = Inr x \<and> fst (f x) = Inl e)"
  by (cases m) (auto simp: andthen_def split: sum.splits prod.splits)

lemmas comp_defs = returns_def throws_def attempt_def

lemma show_nat_digit [simp]: "n < 10 \<Longrightarrow> show_nat n = [''0123456789'' ! n]"
  by (simp add: show_nat.simps)

lemmas browser_inputs = chrome_def canned_def parse_listed_def documents_def answer_def
  session_def old_account_def message_def opened_def API_BASE_def authorized_def
  post_credentials_def ok_def comp_defs

subsection \<open>Credential acquisition\<close>

text \<open>Each of the three steps, when it throws, makes the whole \<^verbatim>\<open>try\<close> block throw.\<close>

lemma acquire_stops_at_domain: "fst (get_domain env) = Inl e \<Longrightarrow> fst (acquire env) = Inl e"
  by (simp add: acquire_def fst_andthen_Inl)

lemma acquire_stops_at_create:
  "fst (get_domain env) = Inr d \<Longrightarrow>
   fst (create_call env (generateRandomString (random1 env) 10 @ ''@'' @ template d)
          (generateRandomString (random2 env) 12)) = Inl e \<Longrightarrow>
     fst (acquire env) = Inl e"
  by (simp add: acquire_def fst_andthen_Inl Let_def)

lemma acquire_stops_at_token:
  "fst (get_domain env) = Inr d \<Longrightarrow>
   fst (create_call env (generateRandomString (random1 env) 10 @ ''@'' @ template d)
          (generateRandomString (random2 env) 12)) = Inr accountData \<Longrightarrow>
   fst (token_call env (generateRandomString (random1 env) 10 @ ''@'' @ template d)
          (generateRandomString (random2 env) 12)) = Inl e \<Longrightarrow>
     fst (acquire env) = Inl e"
  by (simp add: acquire_def fst_andthen_Inl Let_def)

text \<open>The token call throws when the answer is fine but carries no truthy token.\<close>

lemma token_call_without_token:
  "net env (post_credentials env (API_BASE @ ''/token'') addr password) = Inr r \<Longrightarrow> ok r \<Longrightarrow>
   fst (safeJson env r) = Inr d \<Longrightarrow> get_prop (Some d) ''token'' = Inr t \<Longrightarrow> \<not> truthy t \<Longrightarrow>
     fst (token_call env addr password) = Inl ''Token not received from server''"
  by (cases "safeJson env r")
    (auto simp: token_call_def comp_defs split: option.splits prod.splits)

text \<open>When nothing throws, the new credential is active and stored, and the list is reset.\<close>

lemma createAccount_stores:
  "acquire env = (Inr acc, logs) \<Longrightarrow> setItem_error env = None \<Longrightarrow>
     account (createAccount env st) = Some acc \<and>
     stored (createAccount env st) = Some (JSON_stringify env (account_json acc)) \<and>
     messages (createAccount env st) = JArr [] \<and>
     error (createAccount env st) = None"
  by (simp add: createAccount_def)

text \<open>
  C1. When the acquisition sequence throws, at whichever step, \<^verbatim>\<open>createAccount\<close>
  leaves the active credential, the stored credential and the message list as they
  were, and sets the one error slot to the message of that error (to
  \<open>An error occurred\<close> when the message is empty).
\<close>

theorem createAccount_atomic:
  "fst (acquire env) = Inl msg \<Longrightarrow>
     account (createAccount env st) = account st \<and>
     stored (createAccount env st) = stored st \<and>
     messages (createAccount env st) = messages st \<and>
     error (createAccount env st) = Some (shown msg) \<and> shown msg \<noteq> []"
  by (cases "acquire env") (simp add: createAccount_def shown_def)

theorem createAccount_atomic_witness:
  "fst (acquire (chrome no_token_server ''0.k3j9x2m7q1p'' ''0.z8y7x6w5v4u3'')) =
     Inl ''Token not received from server'' \<and>
   account (createAccount (chrome no_token_server ''0.k3j9x2m7q1p'' ''0.z8y7x6w5v4u3'')
              (session [message ''m1'' True] JNull)) = Some old_account \<and>
   stored (createAccount (chrome no_token_server ''0.k3j9x2m7q1p'' ''0.z8y7x6w5v4u3'')
              (session [message ''m1'' True] JNull)) =
     Some (print_json (account_json old_account)) \<and>
   messages (createAccount (chrome no_token_server ''0.k3j9x2m7q1p'' ''0.z8y7x6w5v4u3'')
              (session [message ''m1'' True] JNull)) = JArr [message ''m1'' True] \<and>
   error (createAccount (chrome no_token_server ''0.k3j9x2m7q1p'' ''0.z8y7x6w5v4u3'')
              (session [message ''m1'' True] JNull)) = Some ''Token not received from server''"
proof -
  have a: "fst (acquire (chrome no_token_server ''0.k3j9x2m7q1p'' ''0.z8y7x6w5v4u3'')) =
     Inl ''Token not received from server''"
    by (simp add: acquire_def get_domain_def create_call_def token_call_def safeJson_def
        browser_inputs no_token_server_def signup_calls_def generateRandomString_def
        template_def Let_def)
  from createAccount_atomic [OF a, of "session [message ''m1'' True] JNull"] a
  show ?thesis by (simp add: session_def shown_def)
qed

text \<open>
  C6. \<^verbatim>\<open>generateRandomString(length)\<close> cuts at most \<open>length\<close> characters out of the
  digits \<^verbatim>\<open>Math.random().toString(36)\<close> happens to have.  When \<^verbatim>\<open>Math.random()\<close>
  returns 0.5, whose rendering in base 36 is \<open>0.i\<close>, the user name and the password
  are the one character \<open>i\<close> and, with the domain list \<open>[{domain: "test.dev"}]\<close>, the
  address is \<open>i@test.dev\<close>.
\<close>

theorem generateRandomString_short:
  "generateRandomString ''0.i'' 10 = ''i'' \<and> generateRandomString ''0.i'' 12 = ''i'' \<and>
   account (createAccount (chrome token_server ''0.i'' ''0.i'') (session [] JNull)) =
     Some \<lparr>acc_id = Some (JStr ''a1''), address = ''i@test.dev'', token = JStr ''t1''\<rparr>"
  by (simp add: createAccount_def acquire_def get_domain_def create_call_def token_call_def
      safeJson_def browser_inputs token_server_def signup_calls_def generateRandomString_def
      template_def Let_def)

lemma generateRandomString_bound:
  "length (generateRandomString r n) \<le> n \<and>
   length (generateRandomString r n) = min n (length r - 2) \<and>
   set (generateRandomString r n) \<subseteq> set (drop 2 r)"
  by (auto simp: generateRandomString_def dest: in_set_takeD)

subsection \<open>The message list\<close>

lemma poll_failure_silent: "fst (poll env a) = Inl e \<Longrightarrow> snd (poll env a) = []"
  unfolding poll_def
  by (auto simp: safeJson_def comp_defs andthen_def
      split: sum.splits if_splits option.splits prod.splits)

lemma detail_failure_silent: "fst (detail env a i) = Inl e \<Longrightarrow> snd (detail env a i) = []"
  unfolding detail_def
  by (auto simp: safeJson_def comp_defs andthen_def
      split: sum.splits if_splits option.splits prod.splits)

lemma mark_one_keeps:
  "mark_one i m = Inr m' \<Longrightarrow> (has_id j m \<longrightarrow> seen_flag m) \<Longrightarrow> (has_id j m' \<longrightarrow> seen_flag m')"
  by (cases m) (auto simp: mark_one_def has_id_def seen_flag_def update_conv' split: if_splits)

lemma map_throwing_keeps:
  "map_throwing (mark_one i) xs = Inr ys \<Longrightarrow>
   list_all (\<lambda>m. has_id j m \<longrightarrow> seen_flag m) xs \<Longrightarrow>
   list_all (\<lambda>m. has_id j m \<longrightarrow> seen_flag m) ys"
proof (induction xs arbitrary: ys)
  case Nil
  then show ?case by simp
next
  case (Cons m xs)
  then show ?case
    by (auto split: sum.splits dest: mark_one_keeps)
qed

lemma filter_throwing_subset: "filter_throwing f xs = Inr ys \<Longrightarrow> set ys \<subseteq> set xs"
  by (induction xs arbitrary: ys) (auto split: sum.splits if_splits)

lemma step_keeps_seen:
  assumes "step env ev st = Inr st'" and "\<not> replaces env ev st" and "all_seen i st"
  shows "all_seen i st'"
proof (cases ev)
  case Acquire
  with assms show ?thesis
    by (auto simp: all_seen_def entries_def createAccount_def Let_def
        split: prod.splits sum.splits option.splits)
next
  case Poll
  with assms show ?thesis
    by (auto simp: all_seen_def replaces_def fetchMessages_def
        split: prod.splits sum.splits option.splits)
next
  case (Detail j)
  with assms show ?thesis
    by (auto simp: all_seen_def entries_def fetchMessageDetail_def mark_seen_def
        split: prod.splits sum.splits option.splits json.splits
        dest: map_throwing_keeps)
next
  case (Delete j)
  with assms show ?thesis
    by (auto simp: all_seen_def entries_def deleteMessage_def remove_id_def list_all_iff
        split: prod.splits sum.splits option.splits json.splits
        dest!: filter_throwing_subset)
qed

text \<open>
  Opening \<open>m1\<close> sets its \<open>seen\<close> flag; the next poll, answered with the server's list
  in which \<open>m1\<close> is still unseen, puts the flag back to false while \<open>m1\<close> stays in the
  list.
\<close>

theorem seen_reset_by_poll:
  "fetchMessageDetail (chrome inbox_server ''0.a'' ''0.b'') ''m1''
      (session [message ''m1'' False] JNull) = Inr (session [message ''m1'' True] opened) \<and>
   fetchMessages (chrome inbox_server ''0.a'' ''0.b'') (session [message ''m1'' True] opened) =
     session [message ''m1'' False] opened \<and>
   all_seen ''m1'' (session [message ''m1'' True] opened) \<and>
   listed ''m1'' (session [message ''m1'' False] opened) \<and>
   \<not> all_seen ''m1'' (session [message ''m1'' False] opened)"
  by (simp add: fetchMessageDetail_def detail_def fetchMessages_def poll_def safeJson_def
      mark_seen_def mark_one_def browser_inputs inbox_server_def
      all_seen_def listed_def entries_def has_id_def seen_flag_def)

text \<open>
  C2, amended.  Along any run of the controller in which no poll reaches
  \<^verbatim>\<open>setMessages\<close> (detail fetches, deletes, credential acquisitions, polls that
  fail), every entry with a given id that is flagged seen at the start is still flagged
  seen in the entries with that id that remain at the end.
\<close>

theorem seen_kept:
  "run evs st = Inr st' \<Longrightarrow> quiet evs st \<Longrightarrow> all_seen i st \<Longrightarrow> all_seen i st'"
proof (induction evs arbitrary: st)
  case Nil
  then show ?case by simp
next
  case (Cons x evs)
  obtain env ev where x: "x = (env, ev)" by (cases x)
  from Cons.prems(1) x obtain st1 where s: "step env ev st = Inr st1" and r: "run evs st1 = Inr st'"
    by (auto split: sum.splits)
  from Cons.prems(2) x s have q: "\<not> replaces env ev st" "quiet evs st1" by auto
  from step_keeps_seen [OF s q(1) Cons.prems(3)] have "all_seen i st1" .
  with Cons.IH r q(2) show ?case by blast
qed

theorem seen_kept_witness:
  "run [(chrome inbox_server ''0.a'' ''0.b'', Detail ''m1''),
        (chrome failing_server ''0.a'' ''0.b'', Poll),
        (chrome inbox_server ''0.a'' ''0.b'', Delete ''m2'')]
       (session [message ''m1'' True, message ''m2'' False] JNull) =
     Inr ((session [message ''m1'' True] opened)\<lparr>console := [''Failed to fetch messages'']\<rparr>) \<and>
   quiet [(chrome inbox_server ''0.a'' ''0.b'', Detail ''m1''),
          (chrome failing_server ''0.a'' ''0.b'', Poll),
          (chrome inbox_server ''0.a'' ''0.b'', Delete ''m2'')]
         (session [message ''m1'' True, message ''m2'' False] JNull) \<and>
   all_seen ''m1'' (session [message ''m1'' True, message ''m2'' False] JNull) \<and>
   all_seen ''m1''
     ((session [message ''m1'' True] opened)\<lparr>console := [''Failed to fetch messages'']\<rparr>)"
proof -
  have r: "run [(chrome inbox_server ''0.a'' ''0.b'', Detail ''m1''),
        (chrome failing_server ''0.a'' ''0.b'', Poll),
        (chrome inbox_server ''0.a'' ''0.b'', Delete ''m2'')]
       (session [message ''m1'' True, message ''m2'' False] JNull) =
     Inr ((session [message ''m1'' True] opened)\<lparr>console := [''Failed to fetch messages'']\<rparr>)"
    by (simp add: fetchMessageDetail_def detail_def fetchMessages_def poll_def safeJson_def
        deleteMessage_def remove_id_def keep_one_def selected_id_def mark_seen_def mark_one_def
        browser_inputs inbox_server_def failing_server_def)
  have q: "quiet [(chrome inbox_server ''0.a'' ''0.b'', Detail ''m1''),
          (chrome failing_server ''0.a'' ''0.b'', Poll),
          (chrome inbox_server ''0.a'' ''0.b'', Delete ''m2'')]
         (session [message ''m1'' True, message ''m2'' False] JNull)"
    by (simp add: replaces_def fetchMessageDetail_def detail_def fetchMessages_def poll_def
        safeJson_def deleteMessage_def remove_id_def keep_one_def selected_id_def mark_seen_def
        mark_one_def browser_inputs inbox_server_def failing_server_def)
  have s: "all_seen ''m1'' (session [message ''m1'' True, message ''m2'' False] JNull)"
    by (simp add: all_seen_def entries_def has_id_def seen_flag_def session_def message_def)
  from seen_kept [OF r q s] r q s show ?thesis by simp
qed

subsection \<open>Failures of the background operations\<close>

text \<open>
  A detail fetch answered 404 writes nothing to the console: its message becomes the
  user-visible error.
\<close>

theorem detail_failure_shown:
  "fetchMessageDetail (chrome failing_server ''0.a'' ''0.b'') ''m1''
      (session [message ''m1'' False] JNull) =
     Inr ((session [message ''m1'' False] JNull)\<lparr>error := Some ''Failed to fetch message detail''\<rparr>) \<and>
   console ((session [message ''m1'' False] JNull)\<lparr>error := Some ''Failed to fetch message detail''\<rparr>)
     = []"
  by (simp add: fetchMessageDetail_def detail_def browser_inputs failing_server_def)

text \<open>
  C7, amended.  With a credential active: a poll that fails only appends the error to
  the console; a delete whose request is rejected only appends the error to the console;
  a detail fetch that fails sets the user-visible error to the error's message and
  writes nothing to the console.  None of the three touches the credential, so the
  polling effect keeps its interval.
\<close>

theorem background_failures:
  "account st = Some a \<Longrightarrow>
     (fst (poll env a) = Inl e \<longrightarrow>
        fetchMessages env st = st\<lparr>fetchingMessages := False, console := console st @ [e]\<rparr> \<and>
        polling (fetchMessages env st)) \<and>
     (net env (authorized a (API_BASE @ ''/messages/'' @ i) ''DELETE'') = Inl e \<longrightarrow>
        deleteMessage env i st = Inr (st\<lparr>console := console st @ [e]\<rparr>) \<and>
        polling (st\<lparr>console := console st @ [e]\<rparr>)) \<and>
     (fst (detail env a i) = Inl e \<longrightarrow>
        fetchMessageDetail env i st = Inr (st\<lparr>error := Some e, loading := False\<rparr>) \<and>
        polling (st\<lparr>error := Some e, loading := False\<rparr>))"
proof (intro conjI impI)
  assume a: "account st = Some a" and f: "fst (poll env a) = Inl e"
  from f have "poll env a = (Inl e, [])"
    using poll_failure_silent [OF f] by (cases "poll env a") simp
  with a show p: "fetchMessages env st = st\<lparr>fetchingMessages := False, console := console st @ [e]\<rparr>"
    by (simp add: fetchMessages_def)
  from a show "polling (fetchMessages env st)"
    by (simp add: p polling_def)
next
  assume "account st = Some a"
    and "net env (authorized a (API_BASE @ ''/messages/'' @ i) ''DELETE'') = Inl e"
  then show "deleteMessage env i st = Inr (st\<lparr>console := console st @ [e]\<rparr>)"
    by (simp add: deleteMessage_def)
next
  assume a: "account st = Some a" and f: "fst (detail env a i) = Inl e"
  from f have "detail env a i = (Inl e, [])"
    using detail_failure_silent [OF f] by (cases "detail env a i") simp
  with a show "fetchMessageDetail env i st = Inr (st\<lparr>error := Some e, loading := False\<rparr>)"
    by (simp add: fetchMessageDetail_def)
qed (simp_all add: polling_def)

theorem background_failures_witness:
  "account (session [message ''m1'' False] JNull) = Some old_account \<and>
   fst (poll (chrome failing_server ''0.a'' ''0.b'') old_account) = Inl ''Failed to fetch messages'' \<and>
   fetchMessages (chrome failing_server ''0.a'' ''0.b'') (session [message ''m1'' False] JNull) =
     (session [message ''m1'' False] JNull)\<lparr>console := [''Failed to fetch messages'']\<rparr> \<and>
   net (chrome failing_server ''0.a'' ''0.b'')
       (authorized old_account (API_BASE @ ''/messages/'' @ ''m1'') ''DELETE'') = Inl ''Failed to fetch'' \<and>
   deleteMessage (chrome failing_server ''0.a'' ''0.b'') ''m1'' (session [message ''m1'' False] JNull) =
     Inr ((session [message ''m1'' False] JNull)\<lparr>console := [''Failed to fetch'']\<rparr>) \<and>
   fst (detail (chrome failing_server ''0.a'' ''0.b'') old_account ''m1'') =
     Inl ''Failed to fetch message detail'' \<and>
   fetchMessageDetail (chrome failing_server ''0.a'' ''0.b'') ''m1''
       (session [message ''m1'' False] JNull) =
     Inr ((session [message ''m1'' False] JNull)\<lparr>error := Some ''Failed to fetch message detail''\<rparr>)"
proof -
  have a: "account (session [message ''m1'' False] JNull) = Some old_account"
    by (simp add: session_def)
  have p: "fst (poll (chrome failing_server ''0.a'' ''0.b'') old_account) =
      Inl ''Failed to fetch messages''"
    by (simp add: poll_def browser_inputs failing_server_def)
  have d: "net (chrome failing_server ''0.a'' ''0.b'')
       (authorized old_account (API_BASE @ ''/messages/'' @ ''m1'') ''DELETE'') = Inl ''Failed to fetch''"
    by (simp add: browser_inputs failing_server_def)
  have f: "fst (detail (chrome failing_server ''0.a'' ''0.b'') old_account ''m1'') =
      Inl ''Failed to fetch message detail''"
    by (simp add: detail_def browser_inputs failing_server_def)
  from background_failures [OF a, of "chrome failing_server ''0.a'' ''0.b''"
      "''Failed to fetch messages''" "''m1''"] p
    background_failures [OF a, of "chrome failing_server ''0.a'' ''0.b''"
      "''Failed to fetch''" "''m1''"] d
    background_failures [OF a, of "chrome failing_server ''0.a'' ''0.b''"
      "''Failed to fetch message detail''" "''m1''"] f
    a
  show ?thesis by (simp add: session_def)
qed

subsection \<open>Deleting a message\<close>

lemma filter_throwing_no_null:
  "JNull \<notin> set xs \<Longrightarrow> filter_throwing (keep_one i) xs = Inr (filter (\<lambda>m. \<not> has_id i m) xs)"
proof (induction xs)
  case Nil
  then show ?case by simp
next
  case (Cons m xs)
  then have "m \<noteq> JNull" by auto
  then obtain v where "get_prop (Some m) ''id'' = Inr v"
    by (cases m) simp_all
  with Cons show ?case by (auto simp: keep_one_def has_id_def)
qed

lemma selected_id_has_id: "(selected_id sel = Some (JStr i)) = has_id i sel"
  by (cases sel) (simp_all add: selected_id_def has_id_def)

text \<open>
  C8. With a credential active, a list whose entries are message objects (none is
  \<^verbatim>\<open>null\<close>) and a delete call that the server answers: the entries with that id
  leave the list, the others stay in order; the open message is cleared when it has
  that id and is left as it was otherwise.
\<close>

theorem delete_removes:
  "account st = Some a \<Longrightarrow>
   net env (authorized a (API_BASE @ ''/messages/'' @ i) ''DELETE'') = Inr r \<Longrightarrow>
   messages st = JArr xs \<Longrightarrow> JNull \<notin> set xs \<Longrightarrow>
     deleteMessage env i st =
       Inr (st\<lparr> messages := JArr (filter (\<lambda>m. \<not> has_id i m) xs),
                selectedMessage := (if has_id i (selectedMessage st) then JNull
                                    else selectedMessage st) \<rparr>)"
  by (simp add: deleteMessage_def remove_id_def filter_throwing_no_null selected_id_has_id)

theorem delete_removes_witness:
  "deleteMessage (chrome inbox_server ''0.a'' ''0.b'') ''m1''
      (session [message ''m1'' True, message ''m2'' False] opened) =
     Inr (session [message ''m2'' False] JNull) \<and>
   deleteMessage (chrome inbox_server ''0.a'' ''0.b'') ''m2''
      (session [message ''m1'' True, message ''m2'' False] opened) =
     Inr (session [message ''m1'' True] opened)"
proof -
  have a: "account (session [message ''m1'' True, message ''m2'' False] opened) = Some old_account"
    and m: "messages (session [message ''m1'' True, message ''m2'' False] opened) =
      JArr [message ''m1'' True, message ''m2'' False]"
    and n: "JNull \<notin> set [message ''m1'' True, message ''m2'' False]"
    by (simp_all add: session_def message_def)
  have d1: "net (chrome inbox_server ''0.a'' ''0.b'')
      (authorized old_account (API_BASE @ ''/messages/'' @ ''m1'') ''DELETE'') =
      Inr \<lparr>status = 204, content_type = None, body_text = Inr []\<rparr>"
    and d2: "net (chrome inbox_server ''0.a'' ''0.b'')
      (authorized old_account (API_BASE @ ''/messages/'' @ ''m2'') ''DELETE'') =
      Inr \<lparr>status = 204, content_type = None, body_text = Inr []\<rparr>"
    by (simp_all add: browser_inputs inbox_server_def)
  from delete_removes [OF a d1 m n] delete_removes [OF a d2 m n]
  show ?thesis
    by (simp add: session_def message_def opened_def has_id_def)
qed

subsection \<open>Polling the message list\<close>

text \<open>
  A poll answered 200 with the JSON text \<open>null\<close>: reading \<open>hydra:member\<close> of
  \<^verbatim>\<open>null\<close> throws, the error goes to the console and the list stays as it was.
\<close>

theorem null_poll_keeps_list:
  "net (chrome (list_server ''null'') ''0.a'' ''0.b'')
       (authorized old_account (API_BASE @ ''/messages'') ''GET'') =
     Inr (answer 200 ''application/json'' ''null'') \<and>
   ok (answer 200 ''application/json'' ''null'') \<and>
   JSON_parse (chrome (list_server ''null'') ''0.a'' ''0.b'') ''null'' = Inr JNull \<and>
   messages (fetchMessages (chrome (list_server ''null'') ''0.a'' ''0.b'')
               (session [message ''m1'' True] JNull)) = JArr [message ''m1'' True] \<and>
   JArr [message ''m1'' True] \<noteq> JArr [] \<and>
   console (fetchMessages (chrome (list_server ''null'') ''0.a'' ''0.b'')
               (session [message ''m1'' True] JNull)) =
     [''Cannot read properties of null (reading '' @ [CHR 0x27] @ ''hydra:member'' @ [CHR 0x27] @ '')'']"
  by (simp add: fetchMessages_def poll_def safeJson_def browser_inputs list_server_def)

text \<open>
  C10, amended.  With a credential active and a poll answered with an ok status and a
  readable body, \<^verbatim>\<open>fetchMessages\<close> sets the list, whatever it held before: to the
  empty list when the body is empty, when it is not JSON, and when it parses to a value
  other than \<^verbatim>\<open>null\<close> whose \<open>hydra:member\<close> is missing or falsy; to the
  \<open>hydra:member\<close> array when the parsed value has one.
\<close>

theorem poll_replaces_list:
  "account st = Some a \<Longrightarrow>
   net env (authorized a (API_BASE @ ''/messages'') ''GET'') = Inr r \<Longrightarrow> ok r \<Longrightarrow>
   body_text r = Inr text \<Longrightarrow>
     (text = [] \<longrightarrow> messages (fetchMessages env st) = JArr []) \<and>
     (\<forall>e. JSON_parse env text = Inl e \<longrightarrow> messages (fetchMessages env st) = JArr []) \<and>
     (\<forall>d m. text \<noteq> [] \<and> JSON_parse env text = Inr d \<and>
            get_prop (Some d) ''hydra:member'' = Inr m \<and> \<not> truthy m \<longrightarrow>
            messages (fetchMessages env st) = JArr []) \<and>
     (\<forall>d ms. text \<noteq> [] \<and> JSON_parse env text = Inr d \<and>
            get_prop (Some d) ''hydra:member'' = Inr (Some (JArr ms)) \<longrightarrow>
            messages (fetchMessages env st) = JArr ms)"
  by (auto simp: fetchMessages_def poll_def safeJson_def comp_defs andthen_def
      split: option.splits)

theorem poll_replaces_list_witness:
  \<open>messages (fetchMessages (chrome (list_server '''') ''0.a'' ''0.b'')
      (session [message ''m1'' True] JNull)) = JArr [] \<and>
   messages (fetchMessages (chrome (list_server ''<html>'') ''0.a'' ''0.b'')
      (session [message ''m1'' True] JNull)) = JArr [] \<and>
   messages (fetchMessages (chrome (list_server ''{}'') ''0.a'' ''0.b'')
      (session [message ''m1'' True] JNull)) = JArr [] \<and>
   messages (fetchMessages
      (chrome (list_server ''{"hydra:member":[{"id":"m1","seen":false}]}'') ''0.a'' ''0.b'')
      (session [message ''m1'' True] JNull)) = JArr [message ''m1'' False]\<close>
proof -
  have a: "account (session [message ''m1'' True] JNull) = Some old_account"
    by (simp add: session_def)
  have n: "\<And>text. net (chrome (list_server text) ''0.a'' ''0.b'')
        (authorized old_account (API_BASE @ ''/messages'') ''GET'') =
      Inr (answer 200 ''application/json'' text)"
    by (simp add: browser_inputs list_server_def)
  have k: "\<And>text. ok (answer 200 ''application/json'' text)"
    and b: "\<And>text. body_text (answer 200 ''application/json'' text) = Inr text"
    by (simp_all add: ok_def answer_def)
  have p1: "JSON_parse (chrome (list_server ''<html>'') ''0.a'' ''0.b'') ''<html>'' =
      Inl ''Unexpected token''"
    and p2: "JSON_parse (chrome (list_server ''{}'') ''0.a'' ''0.b'') ''{}'' = Inr (JObj [])"
    and p3: \<open>JSON_parse
        (chrome (list_server ''{"hydra:member":[{"id":"m1","seen":false}]}'') ''0.a'' ''0.b'')
        ''{"hydra:member":[{"id":"m1","seen":false}]}'' =
      Inr (JObj [(''hydra:member'', JArr [message ''m1'' False])])\<close>
    by (simp_all add: chrome_def parse_listed_def documents_def)
  from poll_replaces_list [OF a n k b, of "''''"]
  have c0: "messages (fetchMessages (chrome (list_server '''') ''0.a'' ''0.b'')
      (session [message ''m1'' True] JNull)) = JArr []"
    by simp
  from poll_replaces_list [OF a n k b, of "''<html>''"] p1
  have c1: "messages (fetchMessages (chrome (list_server ''<html>'') ''0.a'' ''0.b'')
      (session [message ''m1'' True] JNull)) = JArr []"
    by blast
  from poll_replaces_list [OF a n k b, of "''{}''"] p2
  have c2: "messages (fetchMessages (chrome (list_server ''{}'') ''0.a'' ''0.b'')
      (session [message ''m1'' True] JNull)) = JArr []"
    by simp
  from poll_replaces_list [OF a n k b, of \<open>''{"hydra:member":[{"id":"m1","seen":false}]}''\<close>] p3
  have c3: \<open>messages (fetchMessages
      (chrome (list_server ''{"hydra:member":[{"id":"m1","seen":false}]}'') ''0.a'' ''0.b'')
      (session [message ''m1'' True] JNull)) = JArr [message ''m1'' False]\<close>
    by simp
  from c0 c1 c2 c3 show ?thesis by simp
qed

end
